theory Spec2Isabelle
  imports Main
begin

section \<open>Data model\<close>

text \<open>
  The development embeds the LevelDB/file-system storage adapter
  (\<^verbatim>\<open>FileSystemStorageAdapter\<close>). The adapter keeps metadata records in a
  key-value store (\<^verbatim>\<open>this._db\<close>) and shard payloads as files below a root
  directory (\<^verbatim>\<open>this._path\<close>), reached through \<^verbatim>\<open>this._fs\<close>.

  Every operation of the source reports through a callback \<^verbatim>\<open>callback(err, ...)\<close>;
  the embedding returns the callback's arguments as a value of a sum type
  (\<open>Inl err\<close> for \<^verbatim>\<open>callback(err)\<close>, \<open>Inr v\<close> for \<^verbatim>\<open>callback(null, v)\<close>)
  together with the adapter's state after the call.
\<close>

datatype error =
    NotFound
  | ENOENT
  | EISDIR
  | ENOTDIR
  | SyntaxError
  | Failed string
  | Uncaught error

text \<open>
  \<open>Uncaught e\<close> stands for an exception \<open>e\<close> that was thrown and that nothing
  caught: the operation ends there and its callback is never called. \<open>thrown\<close>
  tells such an outcome from an error handed to a callback.
\<close>

fun thrown :: "error + 'a \<Rightarrow> error option" where
  "thrown (Inl (Uncaught exn)) = Some exn"
| "thrown r = None"

text \<open>
  The \<^verbatim>\<open>shard\<close> field of an item: \<^verbatim>\<open>null\<close>, payload bytes held in memory, or a
  stream opened by \<^verbatim>\<open>fs.createWriteStream(p)\<close> / \<^verbatim>\<open>fs.createReadStream(p)\<close>,
  which remembers the path \<open>p\<close> it was opened at.
\<close>

datatype shard =
    Null
  | Buffer string
  | WriteStream string
  | ReadStream string

text \<open>
  A storage item. The adapter reads and writes two of its fields, \<^verbatim>\<open>shard\<close> and
  \<^verbatim>\<open>fskey\<close> (absent, i.e. \<^verbatim>\<open>undefined\<close>, is \<open>None\<close>); all its other fields
  (hash, contracts, challenges, trees, ...) are opaque to the adapter and are kept
  together in \<open>meta\<close>.
\<close>

record 'm item =
  shard :: shard
  fskey :: "string option"
  meta :: 'm

text \<open>
  A value kept in the key-value store is a string. The JSON text of an item is kept
  abstract: it is represented by the item it denotes, so that \<^verbatim>\<open>JSON.parse\<close> gives
  back what \<^verbatim>\<open>JSON.stringify\<close> was given. (The opaque fields are taken to be plain
  JSON data, which is what this round trip needs.) Any other stored string is
  \<open>Malformed\<close>: \<^verbatim>\<open>JSON.parse\<close> throws a \<^verbatim>\<open>SyntaxError\<close> on it. \<^verbatim>\<open>_put\<close>
  never writes such a value, but the store is persistent and may hold one.
\<close>

datatype 'm json_text = JSON_text "'m item" | Malformed string

definition JSON_stringify :: "'m item \<Rightarrow> 'm json_text" where
  "JSON_stringify i = JSON_text i"

fun JSON_parse :: "'m json_text \<Rightarrow> error + 'm item" where
  "JSON_parse (JSON_text i) = Inr i"
| "JSON_parse (Malformed raw) = Inl SyntaxError"

text \<open>
  JavaScript truthiness of \<^verbatim>\<open>item.fskey\<close>: \<^verbatim>\<open>undefined\<close> and the empty string are
  falsy, every other string is truthy.
\<close>

fun truthy :: "string option \<Rightarrow> bool" where
  "truthy None = False"
| "truthy (Some f) = (f \<noteq> [])"

text \<open>
  A node of the file system: a regular file with its content, or a directory with the
  size that \<^verbatim>\<open>stat\<close> reports for it (a value of the platform).
\<close>

datatype node = File string | Directory nat

fun stat_size :: "node \<Rightarrow> nat" where
  "stat_size (File content) = length content"
| "stat_size (Directory n) = n"

text \<open>
  The requests the adapter sends to its two back ends. They are recorded in the order
  they are made, so that "is attempted" and "is not attempted" can be stated, and they
  index the failures the environment may inject (as the unit tests do with stubs).
\<close>

datatype 'm call =
    DbGet string
  | DbPut string "'m json_text"
  | DbDel string
  | DbOpen
  | DbClose
  | DbApproximateSize string string
  | FsStat string
  | FsCreateWriteStream string
  | FsCreateReadStream string
  | FsUnlink string
  | FsReaddir string
  | FsStatSync string

text \<open>
  The adapter object and the world it acts on.
  \<^item> \<open>path\<close> is \<^verbatim>\<open>this._path\<close>, \<open>isOpen\<close> is \<^verbatim>\<open>this._isOpen\<close>;
  \<^item> \<open>db\<close> is the content of the key-value store behind \<^verbatim>\<open>this._db\<close>, and
    \<open>handle_open\<close> says whether that handle is open;
  \<^item> \<open>estimate\<close> is what the store's \<^verbatim>\<open>approximateSize\<close> answers for a range
    (LevelDB only promises an approximation, so it is a parameter);
  \<^item> \<open>fs\<close> is the file system, an association list from paths to nodes;
  \<^item> \<open>faults\<close> gives the error, if any, that a back-end request fails with (an
    injected \<open>Uncaught e\<close> stands for the request throwing \<open>e\<close>);
  \<^item> \<open>calls\<close> is the record of the requests made so far.
\<close>

record 'm adapter =
  path :: string
  isOpen :: bool
  db :: "string \<rightharpoonup> 'm json_text"
  handle_open :: bool
  estimate :: "(string \<rightharpoonup> 'm json_text) \<Rightarrow> string \<Rightarrow> string \<Rightarrow> nat"
  fs :: "(string \<times> node) list"
  faults :: "'m call \<Rightarrow> error option"
  calls :: "'m call list"

definition SIZE_START_KEY :: string where
  "SIZE_START_KEY = ''0''"

definition SIZE_END_KEY :: string where
  "SIZE_END_KEY = ''z''"

section \<open>Back ends\<close>

definition record_call :: "'m call \<Rightarrow> 'm adapter \<Rightarrow> 'm adapter" where
  "record_call c s = s\<lparr>calls := calls s @ [c]\<rparr>"

text \<open>
  \<^verbatim>\<open>path.join(dir, name)\<close> for a plain name: an empty name is skipped, any other
  name is appended after a separator. (Names with separators or dot segments, which
  \<^verbatim>\<open>path.join\<close> would normalise, are outside the model.)
\<close>

definition path_join :: "string \<Rightarrow> string \<Rightarrow> string" where
  "path_join dir name = (if name = [] then dir else dir @ ''/'' @ name)"

text \<open>The name of \<open>p\<close> inside directory \<open>dir\<close>, when \<open>p\<close> is an entry of \<open>dir\<close>.\<close>

definition entry_name :: "string \<Rightarrow> string \<Rightarrow> string option" where
  "entry_name dir p =
     (let name = drop (Suc (length dir)) p
      in if take (Suc (length dir)) p = dir @ ''/'' \<and> name \<noteq> [] \<and> CHR ''/'' \<notin> set name
         then Some name else None)"

subsection \<open>The key-value store (\<^verbatim>\<open>this._db\<close>)\<close>

definition db_get :: "string \<Rightarrow> 'm adapter \<Rightarrow> (error + 'm json_text) \<times> 'm adapter" where
  "db_get key s =
     (case faults s (DbGet key) of
        Some err \<Rightarrow> (Inl err, record_call (DbGet key) s)
      | None \<Rightarrow>
          (case db s key of
             None \<Rightarrow> (Inl NotFound, record_call (DbGet key) s)
           | Some v \<Rightarrow> (Inr v, record_call (DbGet key) s)))"

definition db_put :: "string \<Rightarrow> 'm json_text \<Rightarrow> 'm adapter \<Rightarrow> (error + unit) \<times> 'm adapter" where
  "db_put key v s =
     (case faults s (DbPut key v) of
        Some err \<Rightarrow> (Inl err, record_call (DbPut key v) s)
      | None \<Rightarrow> (Inr (), record_call (DbPut key v) (s\<lparr>db := (db s)(key \<mapsto> v)\<rparr>)))"

definition db_del :: "string \<Rightarrow> 'm adapter \<Rightarrow> (error + unit) \<times> 'm adapter" where
  "db_del key s =
     (case faults s (DbDel key) of
        Some err \<Rightarrow> (Inl err, record_call (DbDel key) s)
      | None \<Rightarrow> (Inr (), record_call (DbDel key) (s\<lparr>db := (db s)(key := None)\<rparr>)))"

definition db_open :: "'m adapter \<Rightarrow> (error + unit) \<times> 'm adapter" where
  "db_open s =
     (case faults s DbOpen of
        Some err \<Rightarrow> (Inl err, record_call DbOpen s)
      | None \<Rightarrow> (Inr (), record_call DbOpen (s\<lparr>handle_open := True\<rparr>)))"

definition db_close :: "'m adapter \<Rightarrow> (error + unit) \<times> 'm adapter" where
  "db_close s =
     (case faults s DbClose of
        Some err \<Rightarrow> (Inl err, record_call DbClose s)
      | None \<Rightarrow> (Inr (), record_call DbClose (s\<lparr>handle_open := False\<rparr>)))"

definition db_approximateSize ::
  "string \<Rightarrow> string \<Rightarrow> 'm adapter \<Rightarrow> (error + nat) \<times> 'm adapter" where
  "db_approximateSize start end s =
     (case faults s (DbApproximateSize start end) of
        Some err \<Rightarrow> (Inl err, record_call (DbApproximateSize start end) s)
      | None \<Rightarrow> (Inr (estimate s (db s) start end), record_call (DbApproximateSize start end) s))"

subsection \<open>The file system (\<^verbatim>\<open>this._fs\<close>)\<close>

text \<open>
  \<^verbatim>\<open>fs.stat\<close> fails when nothing exists at the path, and with whatever other error
  the environment injects (a permission or input/output error on an existing file).
\<close>

definition fs_stat :: "string \<Rightarrow> 'm adapter \<Rightarrow> (error + node) \<times> 'm adapter" where
  "fs_stat p s =
     (case faults s (FsStat p) of
        Some err \<Rightarrow> (Inl err, record_call (FsStat p) s)
      | None \<Rightarrow>
          (case map_of (fs s) p of
             None \<Rightarrow> (Inl ENOENT, record_call (FsStat p) s)
           | Some n \<Rightarrow> (Inr n, record_call (FsStat p) s)))"

definition fs_createWriteStream :: "string \<Rightarrow> 'm adapter \<Rightarrow> shard \<times> 'm adapter" where
  "fs_createWriteStream p s = (WriteStream p, record_call (FsCreateWriteStream p) s)"

definition fs_createReadStream :: "string \<Rightarrow> 'm adapter \<Rightarrow> shard \<times> 'm adapter" where
  "fs_createReadStream p s = (ReadStream p, record_call (FsCreateReadStream p) s)"

definition fs_unlink :: "string \<Rightarrow> 'm adapter \<Rightarrow> (error + unit) \<times> 'm adapter" where
  "fs_unlink p s =
     (case faults s (FsUnlink p) of
        Some err \<Rightarrow> (Inl err, record_call (FsUnlink p) s)
      | None \<Rightarrow>
          (case map_of (fs s) p of
             None \<Rightarrow> (Inl ENOENT, record_call (FsUnlink p) s)
           | Some (Directory n) \<Rightarrow> (Inl EISDIR, record_call (FsUnlink p) s)
           | Some (File content) \<Rightarrow>
               (Inr (), record_call (FsUnlink p) (s\<lparr>fs := filter (\<lambda>e. fst e \<noteq> p) (fs s)\<rparr>))))"

definition fs_readdir :: "string \<Rightarrow> 'm adapter \<Rightarrow> (error + string list) \<times> 'm adapter" where
  "fs_readdir dir s =
     (case faults s (FsReaddir dir) of
        Some err \<Rightarrow> (Inl err, record_call (FsReaddir dir) s)
      | None \<Rightarrow>
          (case map_of (fs s) dir of
             None \<Rightarrow> (Inl ENOENT, record_call (FsReaddir dir) s)
           | Some (File content) \<Rightarrow> (Inl ENOTDIR, record_call (FsReaddir dir) s)
           | Some (Directory n) \<Rightarrow>
               (Inr (List.map_filter (\<lambda>e. entry_name dir (fst e)) (fs s)),
                record_call (FsReaddir dir) s)))"

text \<open>\<^verbatim>\<open>fs.statSync\<close> throws when nothing exists at the path.\<close>

definition fs_statSync :: "string \<Rightarrow> 'm adapter \<Rightarrow> (error + node) \<times> 'm adapter" where
  "fs_statSync p s =
     (case map_of (fs s) p of
        None \<Rightarrow> (Inl ENOENT, record_call (FsStatSync p) s)
      | Some n \<Rightarrow> (Inr n, record_call (FsStatSync p) s))"

section \<open>The adapter's operations\<close>

text \<open>
  \<^verbatim>\<open>FileSystemStorageAdapter.prototype._peek\<close>. \<^verbatim>\<open>JSON.parse\<close> runs inside the
  callback of \<^verbatim>\<open>db.get\<close> with no \<^verbatim>\<open>try\<close> around it: when it throws, the
  exception is uncaught and the callback of \<^verbatim>\<open>_peek\<close> is never called.
\<close>

definition peek :: "string \<Rightarrow> 'm adapter \<Rightarrow> (error + 'm item) \<times> 'm adapter" where
  "peek key s =
     (case db_get key s of
        (Inl err, s1) \<Rightarrow> (Inl err, s1)
      | (Inr v, s1) \<Rightarrow>
          (case JSON_parse v of
             Inl exn \<Rightarrow> (Inl (Uncaught exn), s1)
           | Inr parsed \<Rightarrow> (Inr parsed, s1)))"

text \<open>
  \<^verbatim>\<open>FileSystemStorageAdapter.prototype._get\<close>. Any error of \<^verbatim>\<open>fs.stat\<close> is
  taken as "the file does not exist" (the callback's only parameter is
  \<^verbatim>\<open>notExists\<close>).
\<close>

definition get :: "string \<Rightarrow> 'm adapter \<Rightarrow> (error + 'm item) \<times> 'm adapter" where
  "get key s =
     (case db_get key s of
        (Inl err, s1) \<Rightarrow> (Inl err, s1)
      | (Inr v, s1) \<Rightarrow>
          (case JSON_parse v of
             Inl exn \<Rightarrow> (Inl (Uncaught exn), s1)
           | Inr result \<Rightarrow>
               (let pathToFile = path_join (path s1) key
                in case fs_stat pathToFile s1 of
                     (notExists, s2) \<Rightarrow>
                       (case (if isl notExists
                              then fs_createWriteStream pathToFile s2
                              else fs_createReadStream pathToFile s2) of
                          (stream, s3) \<Rightarrow> (Inr (result\<lparr>shard := stream\<rparr>), s3)))))"

text \<open>
  \<^verbatim>\<open>FileSystemStorageAdapter.prototype._put\<close>. The source assigns to the fields of
  the caller's object; the item as the call leaves it is returned as the second
  component.
\<close>

definition put ::
  "string \<Rightarrow> 'm item \<Rightarrow> 'm adapter \<Rightarrow> (error + unit) \<times> 'm item \<times> 'm adapter" where
  "put key item0 s =
     (let item1 = item0\<lparr>shard := Null\<rparr>;
          item2 = item1\<lparr>fskey := Some key\<rparr>
      in case db_put key (JSON_stringify item2) s of
           (Inl err, s1) \<Rightarrow> (Inl err, item2, s1)
         | (Inr u, s1) \<Rightarrow> (Inr (), item2, s1))"

text \<open>
  \<^verbatim>\<open>FileSystemStorageAdapter.prototype._del\<close>. The rest of \<^verbatim>\<open>_del\<close> is the
  callback it hands to \<^verbatim>\<open>_peek\<close>: when the pre-read throws, that callback never
  runs and \<^verbatim>\<open>_del\<close> ends with the uncaught exception.
\<close>

definition del :: "string \<Rightarrow> 'm adapter \<Rightarrow> (error + unit) \<times> 'm adapter" where
  "del key s =
     (case peek key s of
        (r, s1) \<Rightarrow>
          (case thrown r of
             Some exn \<Rightarrow> (Inl (Uncaught exn), s1)
           | None \<Rightarrow>
               (let fskey0 = (case r of
                                Inl err \<Rightarrow> key
                              | Inr item0 \<Rightarrow>
                                  (if truthy (fskey item0) then the (fskey item0) else key))
                in case db_del key s1 of
                     (Inl err, s2) \<Rightarrow> (Inl err, s2)
                   | (Inr u, s2) \<Rightarrow>
                       (case fs_unlink (path_join (path s2) fskey0) s2 of
                          (Inl err, s3) \<Rightarrow> (Inl err, s3)
                        | (Inr u', s3) \<Rightarrow> (Inr (), s3)))))"

text \<open>\<^verbatim>\<open>FileSystemStorageAdapter.prototype._flush\<close>\<close>

definition flush :: "'m adapter \<Rightarrow> (error + unit) \<times> 'm adapter" where
  "flush s = (Inr (), s)"

text \<open>
  The body of \<^verbatim>\<open>files.forEach\<close> in \<^verbatim>\<open>_size\<close>, as a loop over the names with the
  running total. An exception of \<^verbatim>\<open>statSync\<close> leaves the loop; it is not caught
  anywhere, which \<open>Uncaught\<close> records.
\<close>

fun forEach_statSync ::
  "string list \<Rightarrow> nat \<Rightarrow> 'm adapter \<Rightarrow> (error + nat) \<times> 'm adapter" where
  "forEach_statSync [] totalSize s = (Inr totalSize, s)"
| "forEach_statSync (key # files) totalSize s =
     (case fs_statSync (path_join (path s) key) s of
        (Inl err, s1) \<Rightarrow> (Inl (Uncaught err), s1)
      | (Inr st, s1) \<Rightarrow> forEach_statSync files (totalSize + stat_size st) s1)"

text \<open>
  \<^verbatim>\<open>FileSystemStorageAdapter.prototype._size\<close>; the result is the pair
  \<^verbatim>\<open>(totalSize, contractDbSize)\<close> handed to the callback. The optional
  \<^verbatim>\<open>key\<close> argument of the source is never used by it and is left out.
\<close>

definition size_op :: "'m adapter \<Rightarrow> (error + nat \<times> nat) \<times> 'm adapter" where
  "size_op s =
     (case db_approximateSize SIZE_START_KEY SIZE_END_KEY s of
        (Inl err, s1) \<Rightarrow> (Inl err, s1)
      | (Inr contractDbSize, s1) \<Rightarrow>
          (case fs_readdir (path s1) s1 of
             (Inl err, s2) \<Rightarrow> (Inl err, s2)
           | (Inr files, s2) \<Rightarrow>
               (case forEach_statSync files 0 s2 of
                  (Inl err, s3) \<Rightarrow> (Inl err, s3)
                | (Inr totalSize, s3) \<Rightarrow> (Inr (totalSize, contractDbSize), s3))))"

text \<open>\<^verbatim>\<open>FileSystemStorageAdapter.prototype._open\<close>\<close>

definition open_op :: "'m adapter \<Rightarrow> (error + unit) \<times> 'm adapter" where
  "open_op s =
     (if \<not> isOpen s
      then (case db_open s of
              (Inl err, s1) \<Rightarrow> (Inl err, s1)
            | (Inr u, s1) \<Rightarrow> (Inr (), s1\<lparr>isOpen := True\<rparr>))
      else (Inr (), s))"

text \<open>\<^verbatim>\<open>FileSystemStorageAdapter.prototype._close\<close>\<close>

definition close_op :: "'m adapter \<Rightarrow> (error + unit) \<times> 'm adapter" where
  "close_op s =
     (if isOpen s
      then (case db_close s of
              (Inl err, s1) \<Rightarrow> (Inl err, s1)
            | (Inr u, s1) \<Rightarrow> (Inr (), s1\<lparr>isOpen := False\<rparr>))
      else (Inr (), s))"

section \<open>Construction\<close>

text \<open>
  Modelled from the spec: \<^verbatim>\<open>utils.existsSync\<close>, \<^verbatim>\<open>utils.isDirectory\<close> and
  \<^verbatim>\<open>mkdirp.sync\<close> are not part of the sources at hand. \<^verbatim>\<open>_validatePath\<close>
  creates the root directory when nothing exists at the path and then asserts that the
  path is a directory. \<open>dirSize\<close> is the size the platform reports for a directory.
\<close>

definition validatePath ::
  "string \<Rightarrow> nat \<Rightarrow> (string \<times> node) list \<Rightarrow> error + (string \<times> node) list" where
  "validatePath storageDirPath dirSize files =
     (let files1 = (if map_of files storageDirPath = None
                    then files @ [(storageDirPath, Directory dirSize)] else files)
      in case map_of files1 storageDirPath of
           Some (Directory n) \<Rightarrow> Inr files1
         | Some (File content) \<Rightarrow> Inl (Failed ''Invalid directory path supplied'')
         | None \<Rightarrow> Inl (Failed ''Invalid directory path supplied''))"

text \<open>
  The constructor. The key-value store lives in the directory \<^verbatim>\<open>contracts.db\<close>
  inside the root, which the store creates when it is missing; \<open>stored\<close> is the
  content the store has on disk, \<open>est\<close> and \<open>flt\<close> are the environment's
  estimator and injected failures.
\<close>

definition FileSystemStorageAdapter ::
  "string \<Rightarrow> nat \<Rightarrow> (string \<rightharpoonup> 'm json_text)
   \<Rightarrow> ((string \<rightharpoonup> 'm json_text) \<Rightarrow> string \<Rightarrow> string \<Rightarrow> nat)
   \<Rightarrow> ('m call \<Rightarrow> error option) \<Rightarrow> (string \<times> node) list \<Rightarrow> error + 'm adapter" where
  "FileSystemStorageAdapter storageDirPath dirSize stored est flt files =
     (case validatePath storageDirPath dirSize files of
        Inl err \<Rightarrow> Inl err
      | Inr files1 \<Rightarrow>
          (let dbPath = path_join storageDirPath ''contracts.db'';
               files2 = (if map_of files1 dbPath = None
                         then files1 @ [(dbPath, Directory dirSize)] else files1)
           in Inr \<lparr>path = storageDirPath, isOpen = True, db = stored, handle_open = True,
                   estimate = est, fs = files2, faults = flt, calls = []\<rparr>))"

section \<open>Notions the properties are stated with\<close>

text \<open>
  Modelled from the spec: the key-value store orders its keys byte-lexicographically.
  \<open>key_less\<close> is that order on strings, \<open>key_le\<close> its reflexive closure.
\<close>

fun key_less :: "string \<Rightarrow> string \<Rightarrow> bool" where
  "key_less [] [] = False"
| "key_less [] (y # ys) = True"
| "key_less (x # xs) [] = False"
| "key_less (x # xs) (y # ys) =
     ((of_char x :: nat) < of_char y \<or> (x = y \<and> key_less xs ys))"

definition key_le :: "string \<Rightarrow> string \<Rightarrow> bool" where
  "key_le a b = (a = b \<or> key_less a b)"

text \<open>The keys inside the span that \<^verbatim>\<open>_size\<close> asks the store to estimate.\<close>

definition in_size_range :: "string \<Rightarrow> bool" where
  "in_size_range k = (key_le SIZE_START_KEY k \<and> key_le k SIZE_END_KEY)"

text \<open>Keys as the network derives them: non-empty strings of hexadecimal digits.\<close>

definition hex_key :: "string \<Rightarrow> bool" where
  "hex_key k = (k \<noteq> [] \<and> list_all (\<lambda>c. c \<in> set ''0123456789abcdef'') k)"

text \<open>
  The entries of the root directory, the shard files among them (the regular files),
  and the bytes a list of entries takes on disk.
\<close>

definition root_entries :: "'m adapter \<Rightarrow> (string \<times> node) list" where
  "root_entries s = filter (\<lambda>e. entry_name (path s) (fst e) \<noteq> None) (fs s)"

fun is_file :: "node \<Rightarrow> bool" where
  "is_file (File content) = True"
| "is_file (Directory n) = False"

definition shard_files :: "'m adapter \<Rightarrow> (string \<times> node) list" where
  "shard_files s = filter (\<lambda>e. is_file (snd e)) (root_entries s)"

definition other_entries :: "'m adapter \<Rightarrow> (string \<times> node) list" where
  "other_entries s = filter (\<lambda>e. \<not> is_file (snd e)) (root_entries s)"

definition bytes_on_disk :: "(string \<times> node) list \<Rightarrow> nat" where
  "bytes_on_disk es = sum_list (map (\<lambda>e. stat_size (snd e)) es)"

text \<open>
  No value in the key-value store carries shard data: every stored value is the JSON
  text of an item whose shard is \<^verbatim>\<open>null\<close>.
\<close>

definition no_shard_stored :: "'m adapter \<Rightarrow> bool" where
  "no_shard_stored s =
     (\<forall>v \<in> ran (db s). \<exists>r. JSON_parse v = Inr r \<and> shard r = Null)"


text \<open>The requests an operation added to the record of a state \<open>s\<close>.\<close>

definition new_calls :: "'m adapter \<Rightarrow> 'm adapter \<Rightarrow> 'm call list" where
  "new_calls s s' = drop (length (calls s)) (calls s')"

fun is_unlink :: "'m call \<Rightarrow> bool" where
  "is_unlink (FsUnlink p) = True"
| "is_unlink c = False"

section \<open>Example states\<close>

text \<open>
  A fresh adapter on \<^verbatim>\<open>/data\<close> in an empty file system, on a platform whose
  directories have size 4096, with an empty store and no injected failure.
\<close>

definition fresh :: "unit adapter" where
  "fresh = \<lparr>path = ''/data'', isOpen = True, db = Map.empty, handle_open = True,
            estimate = (\<lambda>m a b. 0),
            fs = [(''/data'', Directory 4096), (''/data/contracts.db'', Directory 4096)],
            faults = (\<lambda>c. None), calls = []\<rparr>"

text \<open>An item as a caller hands it to \<^verbatim>\<open>put\<close>: shard bytes, no fskey yet.\<close>

definition new_item :: "unit item" where
  "new_item = \<lparr>shard = Buffer ''test'', fskey = None, meta = ()\<rparr>"

text \<open>
  A store whose record for \<^verbatim>\<open>abc\<close> names \<^verbatim>\<open>xyz\<close> as its file-system key, with
  the shard file at \<^verbatim>\<open>/data/xyz\<close>.
\<close>

definition aliased :: "unit adapter" where
  "aliased = fresh\<lparr>
     db := [''abc'' \<mapsto> JSON_text \<lparr>shard = Null, fskey = Some ''xyz'', meta = ()\<rparr>],
     fs := fs fresh @ [(''/data/xyz'', File ''hello'')]\<rparr>"

text \<open>
  A store whose record for \<^verbatim>\<open>abc\<close> carries no fskey (a record from before the
  field was introduced), with the shard file at \<^verbatim>\<open>/data/abc\<close>.
\<close>

definition no_fskey :: "unit adapter" where
  "no_fskey = fresh\<lparr>
     db := [''abc'' \<mapsto> JSON_text \<lparr>shard = Null, fskey = None, meta = ()\<rparr>],
     fs := fs fresh @ [(''/data/abc'', File ''hello'')]\<rparr>"

text \<open>
  A store whose value for \<^verbatim>\<open>abc\<close> is not JSON (an unreadable record), with the
  shard file at \<^verbatim>\<open>/data/abc\<close>.
\<close>

definition unreadable :: "unit adapter" where
  "unreadable = fresh\<lparr>
     db := [''abc'' \<mapsto> Malformed ''not json''],
     fs := fs fresh @ [(''/data/abc'', File ''hello'')]\<rparr>"

text \<open>The fresh adapter after a shard of five bytes was written for \<^verbatim>\<open>abc\<close>.\<close>

definition one_shard :: "unit adapter" where
  "one_shard = fresh\<lparr>
     db := [''abc'' \<mapsto> JSON_text \<lparr>shard = Null, fskey = Some ''abc'', meta = ()\<rparr>],
     fs := fs fresh @ [(''/data/abc'', File ''hello'')]\<rparr>"

text \<open>The same state with a key-value store that refuses to delete \<^verbatim>\<open>abc\<close>.\<close>

definition del_fails :: "unit adapter" where
  "del_fails = one_shard\<lparr>
     faults := (\<lambda>c. if c = DbDel ''abc'' then Some (Failed ''Failed to delete'') else None)\<rparr>"

text \<open>A fresh adapter whose key-value store refuses every write.\<close>

definition put_fails :: "unit adapter" where
  "put_fails = fresh\<lparr>
     faults := (\<lambda>c. case c of DbPut k v \<Rightarrow> Some (Failed ''Failed'') | _ \<Rightarrow> None)\<rparr>"

text \<open>A closed adapter, and a closed adapter whose store cannot be opened.\<close>

definition closed :: "unit adapter" where
  "closed = fresh\<lparr>isOpen := False, handle_open := False\<rparr>"

definition open_fails :: "unit adapter" where
  "open_fails = closed\<lparr>
     faults := (\<lambda>c. if c = DbOpen then Some (Failed ''Failed'') else None)\<rparr>"

text \<open>Whether a record agrees with an item on every field but the shard.\<close>

definition same_non_shard_fields :: "'m item \<Rightarrow> 'm item \<Rightarrow> bool" where
  "same_non_shard_fields r i = (fskey r = fskey i \<and> meta r = meta i)"

section \<open>Facts about the back ends\<close>

lemma record_call_fields [simp]:
  "path (record_call c s) = path s"
  "isOpen (record_call c s) = isOpen s"
  "db (record_call c s) = db s"
  "handle_open (record_call c s) = handle_open s"
  "estimate (record_call c s) = estimate s"
  "fs (record_call c s) = fs s"
  "faults (record_call c s) = faults s"
  "calls (record_call c s) = calls s @ [c]"
  by (simp_all add: record_call_def)

lemma db_get_snd [simp]: "snd (db_get k s) = record_call (DbGet k) s"
  by (simp add: db_get_def split: option.splits)

lemma peek_snd [simp]: "snd (peek k s) = record_call (DbGet k) s"
  by (simp add: peek_def db_get_def split: option.splits sum.splits)

lemma db_del_ok:
  "faults s (DbDel k) = None \<Longrightarrow>
   db_del k s = (Inr (), record_call (DbDel k) (s\<lparr>db := (db s)(k := None)\<rparr>))"
  by (simp add: db_del_def)

lemma fs_unlink_calls [simp]: "calls (snd (fs_unlink p s)) = calls s @ [FsUnlink p]"
  by (simp add: fs_unlink_def split: option.splits node.splits)

text \<open>The example state \<open>fresh\<close> is what the constructor builds on an empty disk.\<close>

lemma fresh_constructed:
  "FileSystemStorageAdapter ''/data'' 4096 Map.empty (\<lambda>m a b. 0) (\<lambda>c. None) [] = Inr fresh"
  by (simp add: FileSystemStorageAdapter_def validatePath_def fresh_def path_join_def)

lemmas example_defs =
  fresh_def new_item_def aliased_def no_fskey_def unreadable_def one_shard_def del_fails_def
  put_fails_def closed_def open_fails_def

lemmas backend_defs =
  record_call_def path_join_def entry_name_def db_get_def db_put_def db_del_def db_open_def
  db_close_def db_approximateSize_def fs_stat_def fs_createWriteStream_def
  fs_createReadStream_def fs_unlink_def fs_readdir_def fs_statSync_def JSON_stringify_def
  SIZE_START_KEY_def SIZE_END_KEY_def new_calls_def List.map_filter_def Let_def

section \<open>put and peek\<close>

text \<open>
  C10. \<^verbatim>\<open>put(k, item)\<close> changes the caller's item in place: whatever the key-value
  write answers, the item the call leaves behind has its shard field set to
  \<^verbatim>\<open>null\<close> and its fskey field set to \<open>k\<close>, and its other fields are untouched.
\<close>

theorem put_mutates_item:
  "fst (snd (put k i s)) = i\<lparr>shard := Null, fskey := Some k\<rparr>
   \<and> shard (fst (snd (put k i s))) = Null
   \<and> fskey (fst (snd (put k i s))) = Some k
   \<and> meta (fst (snd (put k i s))) = meta i"
  by (simp add: put_def Let_def split: prod.splits sum.splits)

text \<open>
  C5. The value \<^verbatim>\<open>put(k, item)\<close> hands to the key-value store is the JSON text of
  the item with its shard cleared and its fskey set to \<open>k\<close>; that request is the only
  one \<^verbatim>\<open>put\<close> makes. When the write succeeds the store holds exactly that text
  under \<open>k\<close>, and when it fails the store is as before. Hence no stored value ever
  carries shard data: the property is kept by every \<^verbatim>\<open>put\<close>.
\<close>

theorem put_persists_no_shard:
  "new_calls s (snd (snd (put k i s))) =
     [DbPut k (JSON_stringify (i\<lparr>shard := Null, fskey := Some k\<rparr>))]
   \<and> (\<exists>r. JSON_parse (JSON_stringify (i\<lparr>shard := Null, fskey := Some k\<rparr>)) = Inr r
         \<and> shard r = Null \<and> fskey r = Some k)
   \<and> (fst (put k i s) = Inr () \<longrightarrow>
        db (snd (snd (put k i s))) =
          (db s)(k \<mapsto> JSON_stringify (i\<lparr>shard := Null, fskey := Some k\<rparr>)))
   \<and> (fst (put k i s) \<noteq> Inr () \<longrightarrow> db (snd (snd (put k i s))) = db s)
   \<and> (no_shard_stored s \<longrightarrow> no_shard_stored (snd (snd (put k i s))))"
  by (auto simp: put_def db_put_def new_calls_def JSON_stringify_def no_shard_stored_def
      Let_def ran_def split: option.splits if_splits)

text \<open>
  Witness for C5: a successful \<^verbatim>\<open>put\<close> of an item with shard bytes into the fresh
  adapter, and a \<^verbatim>\<open>put\<close> that the store refuses.
\<close>

theorem put_persists_no_shard_witness:
  "no_shard_stored fresh
   \<and> fst (put ''abc'' new_item fresh) = Inr ()
   \<and> db (snd (snd (put ''abc'' new_item fresh))) =
       [''abc'' \<mapsto> JSON_text \<lparr>shard = Null, fskey = Some ''abc'', meta = ()\<rparr>]
   \<and> no_shard_stored (snd (snd (put ''abc'' new_item fresh)))
   \<and> fst (put ''abc'' new_item put_fails) \<noteq> Inr ()
   \<and> db (snd (snd (put ''abc'' new_item put_fails))) = db put_fails"
proof -
  have inv: "no_shard_stored fresh"
    by (simp add: no_shard_stored_def fresh_def)
  have ok: "fst (put ''abc'' new_item fresh) = Inr ()"
    by (simp add: put_def example_defs backend_defs)
  have bad: "fst (put ''abc'' new_item put_fails) \<noteq> Inr ()"
    by (simp add: put_def example_defs backend_defs)
  show ?thesis
    using put_persists_no_shard [of fresh "''abc''" new_item]
      put_persists_no_shard [of put_fails "''abc''" new_item] inv ok bad
    by (simp add: new_item_def JSON_stringify_def fresh_def)
qed

text \<open>
  C1 (as amended). When \<^verbatim>\<open>put(k, I)\<close> succeeds and the store serves the read,
  \<^verbatim>\<open>peek(k)\<close> succeeds and returns \<open>I\<close> with its shard cleared and its fskey set
  to \<open>k\<close>: the fields other than shard and fskey equal those of \<open>I\<close>, the fskey is
  \<open>k\<close> whatever \<open>I\<close> carried, and the shard is empty. The record equals the
  caller's item as \<^verbatim>\<open>put\<close> left it.
\<close>

theorem put_then_peek:
  "fst (put k i s) = Inr () \<Longrightarrow> faults s (DbGet k) = None \<Longrightarrow>
   \<exists>r. fst (peek k (snd (snd (put k i s)))) = Inr r
       \<and> meta r = meta i \<and> fskey r = Some k \<and> shard r = Null
       \<and> r = fst (snd (put k i s))"
  by (auto simp: put_def peek_def db_put_def db_get_def JSON_stringify_def Let_def
      split: option.splits)

text \<open>Witness for C1: the new item put into the fresh adapter under \<^verbatim>\<open>abc\<close>.\<close>

theorem put_then_peek_witness:
  "fst (put ''abc'' new_item fresh) = Inr () \<and> faults fresh (DbGet ''abc'') = None
   \<and> fst (peek ''abc'' (snd (snd (put ''abc'' new_item fresh)))) =
       Inr \<lparr>shard = Null, fskey = Some ''abc'', meta = ()\<rparr>"
proof -
  have ok: "fst (put ''abc'' new_item fresh) = Inr ()"
    by (simp add: put_def example_defs backend_defs)
  have nf: "faults fresh (DbGet ''abc'') = None"
    by (simp add: fresh_def)
  from put_then_peek [OF ok nf] obtain r where
    "fst (peek ''abc'' (snd (snd (put ''abc'' new_item fresh)))) = Inr r"
    and "meta r = meta new_item" and "fskey r = Some ''abc''" and "shard r = Null"
    by blast
  then show ?thesis
    using ok nf by (cases r) simp
qed

text \<open>
  Counterexample for C1 as stated: the new item has no fskey, the record that
  \<^verbatim>\<open>peek\<close> returns after \<^verbatim>\<open>put\<close> has fskey \<^verbatim>\<open>abc\<close>, so the two differ in a
  field that is not the shard.
\<close>

theorem put_then_peek_counterexample:
  "fst (put ''abc'' new_item fresh) = Inr ()
   \<and> fst (peek ''abc'' (snd (snd (put ''abc'' new_item fresh)))) =
       Inr \<lparr>shard = Null, fskey = Some ''abc'', meta = ()\<rparr>
   \<and> \<not> same_non_shard_fields \<lparr>shard = Null, fskey = Some ''abc'', meta = ()\<rparr> new_item"
  by (simp add: put_def peek_def same_non_shard_fields_def example_defs backend_defs)

section \<open>get\<close>

text \<open>
  C2 (the code departs from the claim). For the record of \<^verbatim>\<open>abc\<close> whose fskey is
  \<^verbatim>\<open>xyz\<close>, with the shard file at \<^verbatim>\<open>/data/xyz\<close>, \<^verbatim>\<open>get\<close> looks at
  \<^verbatim>\<open>/data/abc\<close>, finds nothing and attaches a write stream opened at
  \<^verbatim>\<open>/data/abc\<close>; the fskey of the record is not consulted. \<^verbatim>\<open>del\<close> on the same
  state does resolve the fskey and unlinks \<^verbatim>\<open>/data/xyz\<close>.
\<close>

theorem get_ignores_fskey:
  "fst (peek ''abc'' aliased) = Inr \<lparr>shard = Null, fskey = Some ''xyz'', meta = ()\<rparr>
   \<and> map_of (fs aliased) ''/data/xyz'' = Some (File ''hello'')
   \<and> fst (get ''abc'' aliased) =
       Inr \<lparr>shard = WriteStream ''/data/abc'', fskey = Some ''xyz'', meta = ()\<rparr>
   \<and> new_calls aliased (snd (get ''abc'' aliased)) =
       [DbGet ''abc'', FsStat ''/data/abc'', FsCreateWriteStream ''/data/abc'']
   \<and> new_calls aliased (snd (del ''abc'' aliased)) =
       [DbGet ''abc'', DbDel ''abc'', FsUnlink ''/data/xyz'']"
  by (simp add: get_def peek_def del_def example_defs backend_defs)

text \<open>
  C3 (the code departs from the claim). Where the record names no other file,
  \<^verbatim>\<open>get\<close> does as the claim says: with the shard file of \<^verbatim>\<open>abc\<close> on disk it
  attaches a read stream. For the record of \<^verbatim>\<open>abc\<close> whose fskey is \<^verbatim>\<open>xyz\<close> the
  shard file exists at the path the record resolves to, \<^verbatim>\<open>/data/xyz\<close>, and a
  \<^verbatim>\<open>stat\<close> of it succeeds; yet \<^verbatim>\<open>get\<close> attaches a write stream, because it
  looked for the file at \<^verbatim>\<open>/data/abc\<close>.
\<close>

theorem get_write_stream_beside_shard:
  "fst (peek ''abc'' one_shard) = Inr \<lparr>shard = Null, fskey = Some ''abc'', meta = ()\<rparr>
   \<and> fst (fs_stat (path_join (path one_shard) ''abc'') one_shard) = Inr (File ''hello'')
   \<and> fst (get ''abc'' one_shard) =
       Inr \<lparr>shard = ReadStream ''/data/abc'', fskey = Some ''abc'', meta = ()\<rparr>
   \<and> fst (peek ''abc'' aliased) = Inr \<lparr>shard = Null, fskey = Some ''xyz'', meta = ()\<rparr>
   \<and> fst (fs_stat (path_join (path aliased) ''xyz'') aliased) = Inr (File ''hello'')
   \<and> fst (get ''abc'' aliased) =
       Inr \<lparr>shard = WriteStream ''/data/abc'', fskey = Some ''xyz'', meta = ()\<rparr>"
  by (simp add: get_def peek_def example_defs backend_defs)

section \<open>del\<close>

lemma del_thrown:
  "thrown (fst (peek k s)) = Some exn \<Longrightarrow>
   del k s = (Inl (Uncaught exn), record_call (DbGet k) s)"
  by (simp add: del_def split_beta)

lemma del_calls:
  assumes nt: "thrown (fst (peek k s)) = None"
  shows "new_calls s (snd (del k s)) =
     DbGet k # DbDel k #
       (if faults s (DbDel k) = None
        then [FsUnlink (path_join (path s)
                (case fst (peek k s) of
                   Inl err \<Rightarrow> k
                 | Inr r \<Rightarrow> (if truthy (fskey r) then the (fskey r) else k)))]
        else [])"
proof (cases "faults s (DbDel k)")
  case None
  let ?s1 = "record_call (DbGet k) s"
  let ?t = "case fst (peek k s) of Inl err \<Rightarrow> k
            | Inr r \<Rightarrow> (if truthy (fskey r) then the (fskey r) else k)"
  let ?s2 = "record_call (DbDel k) (?s1\<lparr>db := (db ?s1)(k := None)\<rparr>)"
  have d: "db_del k ?s1 = (Inr (), ?s2)"
    using None by (simp add: db_del_ok)
  have "snd (del k s) = snd (fs_unlink (path_join (path s) ?t) ?s2)"
    unfolding del_def Let_def
    by (simp add: split_beta nt d split: sum.splits)
  then show ?thesis using None by (simp add: new_calls_def)
next
  case (Some e)
  let ?s1 = "record_call (DbGet k) s"
  have d: "db_del k ?s1 = (Inl e, record_call (DbDel k) ?s1)"
    using Some by (simp add: db_del_def)
  have "snd (del k s) = record_call (DbDel k) ?s1"
    unfolding del_def Let_def
    by (simp add: split_beta nt d)
  then show ?thesis using Some by (simp add: new_calls_def)
qed

lemma del_requests_delete:
  "DbDel k \<in> set (new_calls s (snd (del k s))) \<longleftrightarrow> thrown (fst (peek k s)) = None"
proof (cases "thrown (fst (peek k s))")
  case None
  then show ?thesis by (simp add: del_calls)
next
  case (Some exn)
  then show ?thesis by (simp add: del_thrown new_calls_def)
qed

lemma del_db_failure_result:
  assumes f: "faults s (DbDel k) = Some e"
  shows "fs (snd (del k s)) = fs s \<and> db (snd (del k s)) = db s
         \<and> (thrown (fst (peek k s)) = None \<longrightarrow> fst (del k s) = Inl e)"
proof (cases "thrown (fst (peek k s))")
  case None
  have d: "db_del k (record_call (DbGet k) s) =
             (Inl e, record_call (DbDel k) (record_call (DbGet k) s))"
    using f by (simp add: db_del_def)
  have "del k s = (Inl e, record_call (DbDel k) (record_call (DbGet k) s))"
    unfolding del_def Let_def
    by (simp add: split_beta None d)
  then show ?thesis by simp
next
  case (Some exn)
  then show ?thesis by (simp add: del_thrown)
qed

text \<open>
  C4. When the key-value store fails to delete the metadata entry of \<open>k\<close>, the file
  system and the store's content are as before and no unlink is attempted; and when
  the delete was requested (which is the case unless the pre-read threw), \<^verbatim>\<open>del(k)\<close>
  fails with the error of the delete, the only requests made being the pre-read and
  the failed delete.
\<close>

theorem del_db_failure:
  "faults s (DbDel k) = Some e \<Longrightarrow>
   fs (snd (del k s)) = fs s
   \<and> db (snd (del k s)) = db s
   \<and> \<not> list_ex is_unlink (new_calls s (snd (del k s)))
   \<and> (DbDel k \<in> set (new_calls s (snd (del k s))) \<longrightarrow>
        fst (del k s) = Inl e \<and> new_calls s (snd (del k s)) = [DbGet k, DbDel k])
   \<and> (DbDel k \<in> set (new_calls s (snd (del k s))) \<longleftrightarrow> thrown (fst (peek k s)) = None)"
proof (cases "thrown (fst (peek k s))")
  case None
  assume f: "faults s (DbDel k) = Some e"
  show ?thesis
    using del_db_failure_result [OF f] del_calls [OF None] del_requests_delete [of k s] None f
    by simp
next
  case (Some exn)
  assume f: "faults s (DbDel k) = Some e"
  show ?thesis
    using del_db_failure_result [OF f] del_requests_delete [of k s] Some
    by (simp add: del_thrown new_calls_def)
qed

text \<open>Witness for C4: the store refuses to delete \<^verbatim>\<open>abc\<close>; its shard file stays.\<close>

theorem del_db_failure_witness:
  "faults del_fails (DbDel ''abc'') = Some (Failed ''Failed to delete'')
   \<and> DbDel ''abc'' \<in> set (new_calls del_fails (snd (del ''abc'' del_fails)))
   \<and> fst (del ''abc'' del_fails) = Inl (Failed ''Failed to delete'')
   \<and> map_of (fs (snd (del ''abc'' del_fails))) ''/data/abc'' = Some (File ''hello'')
   \<and> new_calls del_fails (snd (del ''abc'' del_fails)) = [DbGet ''abc'', DbDel ''abc'']"
proof -
  have f: "faults del_fails (DbDel ''abc'') = Some (Failed ''Failed to delete'')"
    by (simp add: example_defs)
  have p: "thrown (fst (peek ''abc'' del_fails)) = None"
    by (simp add: peek_def db_get_def example_defs)
  show ?thesis
    using del_db_failure [OF f] f p by (simp add: example_defs)
qed




section \<open>open and close\<close>

text \<open>
  C9. \<^verbatim>\<open>open()\<close> with the open flag set succeeds at once and changes nothing (no
  request reaches the store). With the flag clear it asks the store to open; when that
  succeeds the store is open and the flag is set, and when it fails the error is
  reported and the flag stays clear. After a successful \<^verbatim>\<open>open()\<close> a second one
  succeeds and changes nothing.
\<close>

theorem open_idempotent:
  "(isOpen s \<longrightarrow> open_op s = (Inr (), s))
   \<and> (\<not> isOpen s \<and> faults s DbOpen = None \<longrightarrow>
        open_op s =
          (Inr (), s\<lparr>isOpen := True, handle_open := True, calls := calls s @ [DbOpen]\<rparr>))
   \<and> (\<forall>e. \<not> isOpen s \<and> faults s DbOpen = Some e \<longrightarrow>
        fst (open_op s) = Inl e \<and> isOpen (snd (open_op s)) = False
        \<and> handle_open (snd (open_op s)) = handle_open s)
   \<and> (fst (open_op s) = Inr () \<longrightarrow> open_op (snd (open_op s)) = (Inr (), snd (open_op s)))"
  by (auto simp: open_op_def db_open_def record_call_def split: option.splits)

text \<open>
  Witness for C9: an open adapter, a closed one whose store opens, and a closed one
  whose store fails to open.
\<close>

theorem open_idempotent_witness:
  "isOpen fresh \<and> open_op fresh = (Inr (), fresh)
   \<and> \<not> isOpen closed \<and> faults closed DbOpen = None
   \<and> fst (open_op closed) = Inr ()
   \<and> isOpen (snd (open_op closed)) \<and> handle_open (snd (open_op closed))
   \<and> open_op (snd (open_op closed)) = (Inr (), snd (open_op closed))
   \<and> \<not> isOpen open_fails \<and> faults open_fails DbOpen = Some (Failed ''Failed'')
   \<and> fst (open_op open_fails) = Inl (Failed ''Failed'')
   \<and> \<not> isOpen (snd (open_op open_fails))"
proof -
  have a: "isOpen fresh" "\<not> isOpen closed" "faults closed DbOpen = None"
    "\<not> isOpen open_fails" "faults open_fails DbOpen = Some (Failed ''Failed'')"
    by (simp_all add: example_defs)
  show ?thesis
    using open_idempotent [of fresh] open_idempotent [of closed]
      open_idempotent [of open_fails] a
    by (simp add: open_op_def)
qed

section \<open>size\<close>

lemma entry_name_join:
  assumes "entry_name d p = Some n"
  shows "path_join d n = p"
proof -
  from assms have t: "take (Suc (length d)) p = d @ ''/''"
    and n: "n = drop (Suc (length d)) p" and ne: "n \<noteq> []"
    by (auto simp: entry_name_def Let_def split: if_splits)
  have "path_join d n = (d @ ''/'') @ n" using ne by (simp add: path_join_def)
  also have "\<dots> = take (Suc (length d)) p @ drop (Suc (length d)) p" by (simp only: t n)
  also have "\<dots> = p" by (rule append_take_drop_id)
  finally show ?thesis .
qed

lemma readdir_names_exist:
  assumes "n \<in> set (List.map_filter (\<lambda>e. entry_name d (fst e)) xs)"
  shows "map_of xs (path_join d n) \<noteq> None"
proof -
  from assms obtain e where e: "e \<in> set xs" and en: "entry_name d (fst e) = Some n"
    by (auto simp: List.map_filter_def)
  have "path_join d n = fst e" using en by (rule entry_name_join)
  moreover have "fst e \<in> fst ` set xs" using e by (rule imageI)
  ultimately show ?thesis by (simp add: map_of_eq_None_iff)
qed

lemma forEach_statSync_total:
  "\<forall>n \<in> set names. map_of (fs s) (path_join (path s) n) \<noteq> None \<Longrightarrow>
   fst (forEach_statSync names t s) =
     Inr (t + sum_list (map (\<lambda>n. stat_size (the (map_of (fs s) (path_join (path s) n)))) names))"
  by (induction names arbitrary: t s) (auto simp: fs_statSync_def split: option.splits)

lemma forEach_statSync_calls:
  "\<exists>rest. calls (snd (forEach_statSync names t s)) = calls s @ rest"
proof (induction names arbitrary: t s)
  case Nil
  show ?case by simp
next
  case (Cons n names)
  let ?s1 = "record_call (FsStatSync (path_join (path s) n)) s"
  show ?case
  proof (cases "map_of (fs s) (path_join (path s) n)")
    case None
    then show ?thesis by (simp add: fs_statSync_def)
  next
    case (Some st)
    from Cons.IH [of "t + stat_size st" ?s1] obtain rest where
      "calls (snd (forEach_statSync names (t + stat_size st) ?s1)) = calls ?s1 @ rest" ..
    then show ?thesis using Some by (simp add: fs_statSync_def)
  qed
qed

lemma sum_list_map_filter_Some:
  "sum_list (map f (List.map_filter g xs)) =
   sum_list (map (\<lambda>e. f (the (g e))) (filter (\<lambda>e. g e \<noteq> None) xs))"
  by (induction xs) (auto simp: List.map_filter_simps split: option.splits)

lemma sum_list_split_filter:
  "sum_list (map (f :: 'a \<Rightarrow> nat) xs) =
   sum_list (map f (filter P xs)) + sum_list (map f (filter (\<lambda>e. \<not> P e) xs))"
  by (induction xs) auto

lemma bytes_on_disk_split:
  "bytes_on_disk (root_entries s) =
   bytes_on_disk (shard_files s) + bytes_on_disk (other_entries s)"
  unfolding bytes_on_disk_def shard_files_def other_entries_def
  by (rule sum_list_split_filter)

lemma readdir_total:
  assumes "distinct (map fst xs)"
  shows "sum_list (map (\<lambda>n. stat_size (the (map_of xs (path_join d n))))
            (List.map_filter (\<lambda>e. entry_name d (fst e)) xs)) =
         sum_list (map (\<lambda>e. stat_size (snd e))
            (filter (\<lambda>e. entry_name d (fst e) \<noteq> None) xs))"
proof -
  have "sum_list (map (\<lambda>n. stat_size (the (map_of xs (path_join d n))))
            (List.map_filter (\<lambda>e. entry_name d (fst e)) xs)) =
        sum_list (map (\<lambda>e. stat_size (the (map_of xs (path_join d (the (entry_name d (fst e)))))))
            (filter (\<lambda>e. entry_name d (fst e) \<noteq> None) xs))"
    by (rule sum_list_map_filter_Some)
  also have "\<dots> = sum_list (map (\<lambda>e. stat_size (snd e))
            (filter (\<lambda>e. entry_name d (fst e) \<noteq> None) xs))"
  proof (rule arg_cong [where f = sum_list], rule map_cong [OF refl])
    fix e assume "e \<in> set (filter (\<lambda>e. entry_name d (fst e) \<noteq> None) xs)"
    then have mem: "e \<in> set xs" and "entry_name d (fst e) \<noteq> None" by auto
    then obtain n where n: "entry_name d (fst e) = Some n" by auto
    have "path_join d n = fst e" using n by (rule entry_name_join)
    moreover have "map_of xs (fst e) = Some (snd e)"
      using assms mem by (cases e) simp
    ultimately show "stat_size (the (map_of xs (path_join d (the (entry_name d (fst e))))))
        = stat_size (snd e)"
      using n by simp
  qed
  finally show ?thesis .
qed

lemma size_op_readdir:
  assumes "fst (size_op s) = Inr (totalSize, contractDbSize)"
  shows "fst (forEach_statSync (List.map_filter (\<lambda>e. entry_name (path s) (fst e)) (fs s)) 0
            (record_call (FsReaddir (path s))
               (record_call (DbApproximateSize SIZE_START_KEY SIZE_END_KEY) s))) = Inr totalSize
         \<and> contractDbSize = estimate s (db s) SIZE_START_KEY SIZE_END_KEY"
  using assms
  by (simp add: size_op_def db_approximateSize_def fs_readdir_def
      split: option.splits node.splits prod.splits sum.splits)

lemma size_op_first_call:
  "\<exists>rest. new_calls s (snd (size_op s)) =
     DbApproximateSize SIZE_START_KEY SIZE_END_KEY # rest"
proof -
  let ?c = "DbApproximateSize SIZE_START_KEY SIZE_END_KEY"
  let ?s1 = "record_call ?c s"
  let ?s2 = "record_call (FsReaddir (path s)) ?s1"
  let ?names = "List.map_filter (\<lambda>e. entry_name (path s) (fst e)) (fs s)"
  obtain rest where r: "calls (snd (forEach_statSync ?names 0 ?s2)) = calls ?s2 @ rest"
    using forEach_statSync_calls by blast
  have "snd (size_op s) = ?s1 \<or> snd (size_op s) = ?s2
        \<or> snd (size_op s) = snd (forEach_statSync ?names 0 ?s2)"
    by (simp add: size_op_def db_approximateSize_def fs_readdir_def
        split: option.splits node.splits prod.splits sum.splits)
  then show ?thesis using r by (auto simp: new_calls_def)
qed

text \<open>
  C7 (as amended). When \<^verbatim>\<open>size()\<close> succeeds, its first number is the sum of the
  on-disk sizes of all entries of the root directory at call time: the shard files and
  every other entry of the root, the directory of the key-value store among them.
  (Paths of the file system are taken to be unique.)
\<close>

theorem size_counts_every_root_entry:
  "distinct (map fst (fs s)) \<Longrightarrow> fst (size_op s) = Inr (totalSize, contractDbSize) \<Longrightarrow>
   totalSize = bytes_on_disk (root_entries s)
   \<and> totalSize = bytes_on_disk (shard_files s) + bytes_on_disk (other_entries s)"
proof -
  assume d: "distinct (map fst (fs s))"
    and ok: "fst (size_op s) = Inr (totalSize, contractDbSize)"
  let ?names = "List.map_filter (\<lambda>e. entry_name (path s) (fst e)) (fs s)"
  let ?s2 = "record_call (FsReaddir (path s))
               (record_call (DbApproximateSize SIZE_START_KEY SIZE_END_KEY) s)"
  have ex: "\<forall>n \<in> set ?names. map_of (fs ?s2) (path_join (path ?s2) n) \<noteq> None"
    using readdir_names_exist [of _ "path s" "fs s"] by simp
  have "fst (forEach_statSync ?names 0 ?s2) =
    Inr (0 + sum_list (map (\<lambda>n. stat_size (the (map_of (fs ?s2) (path_join (path ?s2) n)))) ?names))"
    using ex by (rule forEach_statSync_total)
  moreover have "fst (forEach_statSync ?names 0 ?s2) = Inr totalSize"
    using size_op_readdir [OF ok] by simp
  ultimately have
    "totalSize = sum_list (map (\<lambda>n. stat_size (the (map_of (fs s) (path_join (path s) n)))) ?names)"
    by simp
  then have "totalSize = bytes_on_disk (root_entries s)"
    using readdir_total [OF d, of "path s"] by (simp add: bytes_on_disk_def root_entries_def)
  then show ?thesis using bytes_on_disk_split [of s] by simp
qed

lemma size_op_one_shard: "fst (size_op one_shard) = Inr (4101, 0)"
  by (simp add: size_op_def example_defs backend_defs)

text \<open>
  Witness for C7: the root holds the directory of the key-value store (4096 bytes on
  this platform) and one shard file of five bytes; the total is 4101.
\<close>

theorem size_counts_every_root_entry_witness:
  "distinct (map fst (fs one_shard)) \<and> fst (size_op one_shard) = Inr (4101, 0)
   \<and> (4101::nat) = bytes_on_disk (root_entries one_shard)
   \<and> (4101::nat) = bytes_on_disk (shard_files one_shard) + bytes_on_disk (other_entries one_shard)"
proof -
  have d: "distinct (map fst (fs one_shard))"
    by (simp add: example_defs)
  show ?thesis
    using size_counts_every_root_entry [OF d size_op_one_shard] d size_op_one_shard by simp
qed

text \<open>
  Counterexample for C7 as stated: in that state the shard files take five bytes on
  disk, and \<^verbatim>\<open>size()\<close> answers 4101, which is more than the shard files. On the
  freshly constructed adapter, which has no shard file at all, it answers 4096.
\<close>

theorem size_counts_every_root_entry_counterexample:
  "fst (size_op one_shard) = Inr (4101, 0)
   \<and> shard_files one_shard = [(''/data/abc'', File ''hello'')]
   \<and> bytes_on_disk (shard_files one_shard) = 5
   \<and> fst (size_op fresh) = Inr (4096, 0)
   \<and> shard_files fresh = []"
  by (simp add: size_op_def shard_files_def root_entries_def bytes_on_disk_def
      example_defs backend_defs)

lemma hex_digit_bounds:
  "c \<in> set ''0123456789abcdef'' \<Longrightarrow>
   (c = CHR ''0'' \<or> (of_char (CHR ''0'') :: nat) < of_char c)
   \<and> (of_char c :: nat) < of_char (CHR ''z'')"
  by auto

lemma hex_key_in_size_range: "hex_key k \<Longrightarrow> in_size_range k"
proof -
  assume h: "hex_key k"
  then obtain c cs where k: "k = c # cs" by (cases k) (auto simp: hex_key_def)
  with h have "c \<in> set ''0123456789abcdef''" by (simp add: hex_key_def)
  from hex_digit_bounds [OF this]
  have lo: "c = CHR ''0'' \<or> (of_char (CHR ''0'') :: nat) < of_char c"
    and hi: "(of_char c :: nat) < of_char (CHR ''z'')" by simp_all
  have "key_le ''0'' (c # cs)"
    using lo by (cases cs) (auto simp: key_le_def)
  moreover have "key_le (c # cs) ''z''"
    using hi by (simp add: key_le_def)
  ultimately show ?thesis
    by (simp add: in_size_range_def SIZE_START_KEY_def SIZE_END_KEY_def k)
qed

text \<open>
  C8 (as amended). \<^verbatim>\<open>size()\<close> first asks the key-value store's range estimation
  for the fixed range from \<^verbatim>\<open>'0'\<close> to \<^verbatim>\<open>'z'\<close>, and the metadata total it returns
  is the store's answer for that range. The range covers every key that is a non-empty
  string of hexadecimal digits.
\<close>

theorem size_queries_fixed_range:
  "SIZE_START_KEY = ''0'' \<and> SIZE_END_KEY = ''z''
   \<and> (\<exists>rest. new_calls s (snd (size_op s)) =
         DbApproximateSize SIZE_START_KEY SIZE_END_KEY # rest)
   \<and> (\<forall>totalSize contractDbSize. fst (size_op s) = Inr (totalSize, contractDbSize) \<longrightarrow>
         contractDbSize = estimate s (db s) SIZE_START_KEY SIZE_END_KEY)
   \<and> (\<forall>k. hex_key k \<longrightarrow> in_size_range k)"
  using size_op_first_call [of s] size_op_readdir [of s] hex_key_in_size_range
  by (simp add: SIZE_START_KEY_def SIZE_END_KEY_def)

text \<open>
  Witness for C8: a successful \<^verbatim>\<open>size()\<close>, and the key of the unit tests, which is
  a hexadecimal digest and lies inside the range.
\<close>

theorem size_queries_fixed_range_witness:
  "fst (size_op one_shard) = Inr (4101, 0)
   \<and> (0::nat) = estimate one_shard (db one_shard) SIZE_START_KEY SIZE_END_KEY
   \<and> hex_key ''5e52fee47e6b070565f74372468cdc699de89107''
   \<and> in_size_range ''5e52fee47e6b070565f74372468cdc699de89107''"
proof -
  have h: "hex_key ''5e52fee47e6b070565f74372468cdc699de89107''"
    by (simp add: hex_key_def)
  show ?thesis
    using size_queries_fixed_range [of one_shard] h size_op_one_shard by simp
qed

text \<open>
  Counterexample for C8 as stated: \<^verbatim>\<open>put\<close> accepts the key \<^verbatim>\<open>zz\<close> and the store
  then holds it, but \<^verbatim>\<open>zz\<close> sorts after \<^verbatim>\<open>z\<close> and so lies outside the range that
  \<^verbatim>\<open>size()\<close> asks about.
\<close>

theorem size_queries_fixed_range_counterexample:
  "fst (put ''zz'' new_item fresh) = Inr ()
   \<and> db (snd (snd (put ''zz'' new_item fresh))) ''zz'' =
       Some (JSON_text \<lparr>shard = Null, fskey = Some ''zz'', meta = ()\<rparr>)
   \<and> \<not> in_size_range ''zz''"
  by (simp add: put_def in_size_range_def key_le_def example_defs backend_defs)

end
